theory Spec2Isabelle
  imports Complex_Main "HOL-Library.Product_Lexorder"
begin

section \<open>Data model\<close>

text \<open>
  The application (\<^verbatim>\<open>src/app.py\<close>) reads a CSV file into a pandas DataFrame, filters it by
  year, and derives a summary, three insight sentences and three charts.

  A DataFrame is modelled as the list of its rows in positional order. Every row carries
  its index label (\<open>idx\<close>): \<^verbatim>\<open>read_csv\<close> labels the rows \<open>0, 1, 2, ...\<close> and neither
  \<^verbatim>\<open>sort_values\<close> nor boolean masking renumbers them, and \<^verbatim>\<open>idxmax\<close>/\<^verbatim>\<open>loc\<close> work on labels.
  Numeric cells are exact numbers (\<open>real\<close>); NaN, infinities and binary rounding are outside
  the model. Python's \<^verbatim>\<open>str\<close> is modelled by \<open>string\<close>, a \<open>char\<close> being the code point of
  a character in the range U+0000 to U+00FF.
\<close>

datatype error = ValueError | IndexError | KeyError | AttributeError

type_synonym date = "nat \<times> nat \<times> nat"
  \<comment> \<open>year, month, day; ordered lexicographically, as timestamps are\<close>

text \<open>The columns the CSV file holds in every row.\<close>

record cells =
  tahun :: int
  bulan :: string
  jumlah_sampah :: real
  penanganan_estimasi :: real
  sisa_sampah :: real
  akumulasi :: real
  skn_BAU :: real
  skn_70 :: real
  skn_80 :: real

text \<open>
  A row of the loaded frame: the cells, the index label, the parsed \<^verbatim>\<open>tanggal\<close> and, when
  the period was rebuilt from year and month name, the added column \<^verbatim>\<open>bulan_num\<close> (\<open>None\<close>
  when the file had a \<^verbatim>\<open>tanggal\<close> column and \<^verbatim>\<open>bulan_num\<close> was never added).
\<close>

record row = cells +
  idx :: nat
  tanggal :: date
  bulan_num :: "nat option"

type_synonym dataframe = "row list"

section \<open>Python primitives used by the application\<close>

subsection \<open>Decimal rendering and number formatting\<close>

definition digit_char :: "nat \<Rightarrow> char" where
  "digit_char n = ''0123456789'' ! n"

fun show_nat :: "nat \<Rightarrow> string" where
  "show_nat n = (if n < 10 then [digit_char n]
                 else show_nat (n div 10) @ [digit_char (n mod 10)])"

declare show_nat.simps [simp del]

text \<open>\<^verbatim>\<open>str(i)\<close> and \<^verbatim>\<open>f"{i}"\<close> of an integer.\<close>

definition show_int :: "int \<Rightarrow> string" where
  "show_int i = (if i < 0 then ''-'' @ show_nat (nat (- i)) else show_nat (nat i))"

text \<open>
  The thousands separator of the format \<^verbatim>\<open>{:,.0f}\<close>: a comma before every group of three
  digits, counted from the right. \<open>group3\<close> works on the reversed digit string.
\<close>

fun group3 :: "string \<Rightarrow> string" where
  "group3 (a # b # c # d # rest) = a # b # c # CHR '','' # group3 (d # rest)"
| "group3 xs = xs"

definition commas :: "string \<Rightarrow> string" where
  "commas s = rev (group3 (rev s))"

text \<open>Rounding to an integer with ties to even, as float formatting does.\<close>

definition round_half_even :: "real \<Rightarrow> int" where
  "round_half_even x =
     (let f = \<lfloor>x\<rfloor>; d = x - of_int f
      in if d < 1 / 2 then f
         else if 1 / 2 < d then f + 1
         else if even f then f else f + 1)"

text \<open>\<^verbatim>\<open>f"{x:,.0f}"\<close>; a negative value keeps its sign even when it rounds to zero.\<close>

definition fmt_comma0 :: "real \<Rightarrow> string" where
  "fmt_comma0 x =
     (if x < 0 then ''-'' else '''') @ commas (show_nat (nat (round_half_even \<bar>x\<bar>)))"

subsection \<open>Strings: \<^verbatim>\<open>isdigit\<close>, \<^verbatim>\<open>int\<close>, \<^verbatim>\<open>upper\<close>, \<^verbatim>\<open>title\<close>\<close>

definition isdecimal_char :: "char \<Rightarrow> bool" where
  "isdecimal_char c = (48 \<le> (of_char c :: nat) \<and> (of_char c :: nat) \<le> 57)"

text \<open>
  \<^verbatim>\<open>str.isdigit\<close> accepts every character whose Unicode property Numeric_Type is Digit or
  Decimal. Up to U+00FF these are \<open>0\<close> to \<open>9\<close> and the superscripts U+00B2, U+00B3 and
  U+00B9 (code points 178, 179 and 185).
\<close>

definition isdigit_char :: "char \<Rightarrow> bool" where
  "isdigit_char c =
     (isdecimal_char c \<or> (of_char c :: nat) = 178 \<or> (of_char c :: nat) = 179
        \<or> (of_char c :: nat) = 185)"

definition isdigit :: "string \<Rightarrow> bool" where
  "isdigit s = (s \<noteq> [] \<and> list_all isdigit_char s)"

definition digits_value :: "string \<Rightarrow> nat" where
  "digits_value s = foldl (\<lambda>a c. 10 * a + ((of_char c :: nat) - 48)) 0 s"

text \<open>
  \<^verbatim>\<open>int(s)\<close>. The application calls it only on strings that pass \<^verbatim>\<open>isdigit\<close>; on those
  \<^verbatim>\<open>int\<close> succeeds exactly when every character is a decimal digit and raises ValueError
  otherwise. (Signs, blanks and underscores, which \<^verbatim>\<open>int\<close> also accepts, never reach it.)
\<close>

definition py_int :: "string \<Rightarrow> error + int" where
  "py_int s = (if s \<noteq> [] \<and> list_all isdecimal_char s then Inr (int (digits_value s))
               else Inl ValueError)"

definition lowers :: string where
  "lowers = ''abcdefghijklmnopqrstuvwxyz''"

definition uppers :: string where
  "uppers = ''ABCDEFGHIJKLMNOPQRSTUVWXYZ''"

definition is_lower :: "char \<Rightarrow> bool" where
  "is_lower c = (c \<in> set lowers)"

definition is_upper :: "char \<Rightarrow> bool" where
  "is_upper c = (c \<in> set uppers)"

definition to_upper :: "char \<Rightarrow> char" where
  "to_upper c = (case map_of (zip lowers uppers) c of Some u \<Rightarrow> u | None \<Rightarrow> c)"

definition to_lower :: "char \<Rightarrow> char" where
  "to_lower c = (case map_of (zip uppers lowers) c of Some l \<Rightarrow> l | None \<Rightarrow> c)"

text \<open>
  \<^verbatim>\<open>str.upper\<close> and \<^verbatim>\<open>str.title\<close> on ASCII letters; other characters are left as they are
  (month names are ASCII words).
\<close>

definition upper :: "string \<Rightarrow> string" where
  "upper s = map to_upper s"

fun title_from :: "bool \<Rightarrow> string \<Rightarrow> string" where
  "title_from prev_cased [] = []"
| "title_from prev_cased (c # cs) =
     (if is_lower c \<or> is_upper c
      then (if prev_cased then to_lower c else to_upper c) # title_from True cs
      else c # title_from False cs)"

definition title :: "string \<Rightarrow> string" where
  "title s = title_from False s"

subsection \<open>Series access\<close>

text \<open>\<^verbatim>\<open>series.iloc[-1]\<close>: the last element, IndexError on an empty series.\<close>

definition iloc_last :: "'a list \<Rightarrow> error + 'a" where
  "iloc_last xs = (case xs of [] \<Rightarrow> Inl IndexError | _ \<Rightarrow> Inr (last xs))"

section \<open>\<^verbatim>\<open>build_summary\<close>\<close>

record summary =
  periode :: string
  total_sampah :: string
  total_sampah_value :: real
  rata_penanganan :: string
  rata_penanganan_value :: real
  sisa_akhir :: string
  sisa_akhir_value :: real
  akumulasi_akhir :: string
  akumulasi_akhir_value :: real

text \<open>\<^verbatim>\<open>series.mean()\<close> of a non-empty series (on an empty one pandas gives NaN).\<close>

definition mean :: "real list \<Rightarrow> real" where
  "mean xs = sum_list xs / real (length xs)"

text \<open>\<^verbatim>\<open>series.min()\<close> and \<^verbatim>\<open>series.max()\<close> of the year column.\<close>

definition series_min :: "int list \<Rightarrow> int" where
  "series_min xs = foldl min (hd xs) (tl xs)"

definition series_max :: "int list \<Rightarrow> int" where
  "series_max xs = foldl max (hd xs) (tl xs)"

text \<open>
  The sum and the mean never raise; the first statement that can is
  \<^verbatim>\<open>df["sisa_sampah"].iloc[-1]\<close>, which raises IndexError on an empty frame. The year
  minimum and maximum are evaluated after it, so on a non-empty frame only.
\<close>

definition build_summary :: "dataframe \<Rightarrow> error + summary" where
  "build_summary df =
     (let total = sum_list (map jumlah_sampah df);
          rata = mean (map penanganan_estimasi df)
      in case iloc_last (map sisa_sampah df) of
           Inl e \<Rightarrow> Inl e
         | Inr sisa \<Rightarrow>
            (case iloc_last (map akumulasi df) of
               Inl e \<Rightarrow> Inl e
             | Inr akum \<Rightarrow>
                Inr \<lparr> periode = show_int (series_min (map tahun df)) @ '' - ''
                                  @ show_int (series_max (map tahun df)),
                      total_sampah = fmt_comma0 total @ '' ton'',
                      total_sampah_value = total,
                      rata_penanganan = fmt_comma0 rata @ '' ton/bulan'',
                      rata_penanganan_value = rata,
                      sisa_akhir = fmt_comma0 sisa @ '' ton'',
                      sisa_akhir_value = sisa,
                      akumulasi_akhir = fmt_comma0 akum @ '' ton'',
                      akumulasi_akhir_value = akum \<rparr>))"

section \<open>\<^verbatim>\<open>build_insights\<close>\<close>

text \<open>
  \<^verbatim>\<open>series.idxmax()\<close> and \<^verbatim>\<open>series.idxmin()\<close> return the index label of the first position
  holding the extreme value, and raise ValueError on an empty series. \<open>first_best\<close> scans
  the rows from the front and replaces the candidate only by a strictly better row.
\<close>

fun first_best :: "(real \<Rightarrow> real \<Rightarrow> bool) \<Rightarrow> (row \<Rightarrow> real) \<Rightarrow> row \<Rightarrow> row list \<Rightarrow> row" where
  "first_best better col best [] = best"
| "first_best better col best (r # rs) =
     first_best better col (if better (col r) (col best) then r else best) rs"

definition idxmax :: "(row \<Rightarrow> real) \<Rightarrow> dataframe \<Rightarrow> error + nat" where
  "idxmax col df =
     (case df of [] \<Rightarrow> Inl ValueError
      | r # rs \<Rightarrow> Inr (idx (first_best (\<lambda>a b. b < a) col r rs)))"

definition idxmin :: "(row \<Rightarrow> real) \<Rightarrow> dataframe \<Rightarrow> error + nat" where
  "idxmin col df =
     (case df of [] \<Rightarrow> Inl ValueError
      | r # rs \<Rightarrow> Inr (idx (first_best (\<lambda>a b. a < b) col r rs)))"

text \<open>
  \<^verbatim>\<open>df.loc[label]\<close> followed by the scalar uses the sentences make of the result. A label
  no row holds raises KeyError. A label held by exactly one row selects that row. A label
  held by several rows selects a frame, not a row; the sentence then calls \<^verbatim>\<open>.title()\<close> on a
  column of it, which raises AttributeError. No other statement lies between the
  selection and that call, so the model raises the error at the selection.
\<close>

definition loc :: "dataframe \<Rightarrow> nat \<Rightarrow> error + row" where
  "loc df label =
     (case filter (\<lambda>r. idx r = label) df of
        [] \<Rightarrow> Inl KeyError
      | [r] \<Rightarrow> Inr r
      | _ \<Rightarrow> Inl AttributeError)"

definition highest :: "dataframe \<Rightarrow> error + row" where
  "highest df = (case idxmax jumlah_sampah df of Inl e \<Rightarrow> Inl e | Inr l \<Rightarrow> loc df l)"

definition lowest :: "dataframe \<Rightarrow> error + row" where
  "lowest df = (case idxmin jumlah_sampah df of Inl e \<Rightarrow> Inl e | Inr l \<Rightarrow> loc df l)"

definition peak_sentence :: "row \<Rightarrow> string" where
  "peak_sentence r =
     ''Puncak timbulan terjadi pada '' @ title (bulan r) @ '' '' @ show_int (tahun r)
       @ '' sebesar '' @ fmt_comma0 (jumlah_sampah r) @ '' ton.''"

definition lowest_sentence :: "row \<Rightarrow> string" where
  "lowest_sentence r =
     ''Periode terendah adalah '' @ title (bulan r) @ '' '' @ show_int (tahun r)
       @ '' dengan '' @ fmt_comma0 (jumlah_sampah r) @ '' ton.''"

definition delta_sentence :: "real \<Rightarrow> string" where
  "delta_sentence delta =
     ''Skenario 80% menurunkan akumulasi akhir sebesar '' @ fmt_comma0 delta
       @ '' ton dibanding BAU.''"

definition build_insights :: "dataframe \<Rightarrow> error + string list" where
  "build_insights df =
     (case highest df of Inl e \<Rightarrow> Inl e | Inr hi \<Rightarrow>
      (case lowest df of Inl e \<Rightarrow> Inl e | Inr lo \<Rightarrow>
       (case iloc_last (map skn_80 df) of Inl e \<Rightarrow> Inl e | Inr best_intervention \<Rightarrow>
        (case iloc_last (map skn_BAU df) of Inl e \<Rightarrow> Inl e | Inr bau_end \<Rightarrow>
         (let delta = bau_end - best_intervention
          in Inr [peak_sentence hi, lowest_sentence lo, delta_sentence delta])))))"

section \<open>\<^verbatim>\<open>generate_charts\<close>\<close>

text \<open>
  A figure is modelled by its title and the data of its traces: the x and y arrays handed
  to Plotly, with the trace's name and mode. Styling (colours, margins, axis labels) and
  the rendering of a figure to HTML by \<^verbatim>\<open>render_plotly\<close> are Plotly's and are left out:
  \<open>generate_charts\<close> returns the three figures that the application renders.
  \<^verbatim>\<open>px.line\<close> without a colour column draws the frame as one trace.
\<close>

record trace =
  trace_name :: string
  trace_mode :: string
  trace_x :: "date list"
  trace_y :: "real list"

record figure =
  fig_title :: string
  fig_data :: "trace list"

definition px_line :: "dataframe \<Rightarrow> (row \<Rightarrow> real) \<Rightarrow> string \<Rightarrow> figure" where
  "px_line df col ttl =
     \<lparr> fig_title = ttl,
       fig_data = [\<lparr> trace_name = [], trace_mode = ''lines+markers'',
                      trace_x = map tanggal df, trace_y = map col df \<rparr>] \<rparr>"

definition scatter :: "dataframe \<Rightarrow> (row \<Rightarrow> real) \<Rightarrow> string \<Rightarrow> string \<Rightarrow> trace" where
  "scatter df col md nm =
     \<lparr> trace_name = nm, trace_mode = md, trace_x = map tanggal df, trace_y = map col df \<rparr>"

definition generate_charts :: "dataframe \<Rightarrow> figure \<times> figure \<times> figure" where
  "generate_charts df =
     (let fig_tren = px_line df jumlah_sampah ''Tren Jumlah Sampah Bulanan'';
          fig_akumulasi = px_line df akumulasi ''Akumulasi Sampah (BAU)'';
          fig_skenario =
            \<lparr> fig_title = ''Perbandingan Skenario Kebijakan'',
              fig_data = [scatter df skn_BAU ''lines'' ''BAU (60%)'',
                          scatter df skn_70 ''lines+markers'' ''Skenario 70%'',
                          scatter df skn_80 ''lines+markers'' ''Skenario 80%''] \<rparr>
      in (fig_tren, fig_akumulasi, fig_skenario))"

section \<open>\<^verbatim>\<open>load_data\<close>\<close>

text \<open>
  The file as \<^verbatim>\<open>read_csv\<close> returns it: either it has a \<^verbatim>\<open>tanggal\<close> column, whose cells are
  date strings, or it has not.
\<close>

datatype csv = WithTanggal "(string \<times> cells) list" | WithoutTanggal "cells list"

definition bulan_map :: "string \<Rightarrow> nat option" where
  "bulan_map = map_of
     [(''JANUARI'', 1), (''FEBRUARI'', 2), (''MARET'', 3), (''APRIL'', 4),
      (''MEI'', 5), (''JUNI'', 6), (''JULI'', 7), (''AGUSTUS'', 8),
      (''SEPTEMBER'', 9), (''OKTOBER'', 10), (''NOVEMBER'', 11), (''DESEMBER'', 12)]"

text \<open>
  \<^verbatim>\<open>series.map(bulan_map)\<close> leaves a missing value (NaN) where a name is not a key; it does
  not raise. A column with a missing value is a float column, whose \<^verbatim>\<open>astype(str)\<close>
  writes \<^verbatim>\<open>1.0\<close> for 1 and \<^verbatim>\<open>nan\<close> for the missing value; a column without one is an
  integer column and writes \<^verbatim>\<open>1\<close>.
\<close>

definition astype_str :: "nat option list \<Rightarrow> string list" where
  "astype_str nums =
     (let is_float = (None \<in> set nums)
      in map (\<lambda>n. case n of None \<Rightarrow> ''nan''
                    | Some k \<Rightarrow> show_nat k @ (if is_float then ''.0'' else [])) nums)"

text \<open>\<^verbatim>\<open>s.split(c)\<close>: the fields between the occurrences of \<open>c\<close>.\<close>

fun split_on :: "char \<Rightarrow> string \<Rightarrow> string list" where
  "split_on c [] = [[]]"
| "split_on c (x # xs) =
     (if x = c then [] # split_on c xs
      else (case split_on c xs of [] \<Rightarrow> [[x]] | p # ps \<Rightarrow> (x # p) # ps))"

definition is_leap :: "nat \<Rightarrow> bool" where
  "is_leap y = (y mod 4 = 0 \<and> (y mod 100 \<noteq> 0 \<or> y mod 400 = 0))"

definition days_in_month :: "nat \<Rightarrow> nat \<Rightarrow> nat" where
  "days_in_month y m =
     (if m = 2 then (if is_leap y then 29 else 28)
      else if m = 4 \<or> m = 6 \<or> m = 9 \<or> m = 11 then 30 else 31)"

definition is_decimal :: "string \<Rightarrow> bool" where
  "is_decimal s = (s \<noteq> [] \<and> list_all isdecimal_char s)"

text \<open>
  \<^verbatim>\<open>pd.to_datetime\<close> on one string, for the notation year-month-day that both branches of
  the loader produce: three fields of decimal digits separated by \<open>-\<close>, a year that a
  nanosecond timestamp can hold whole (1678 to 2261), a month from 1 to 12 and a day of
  that month. Every other string is rejected with ValueError (the parser's errors are
  subclasses of it). pandas reads further notations; the model is exact on this one.
\<close>

definition parse_date :: "string \<Rightarrow> error + date" where
  "parse_date s =
     (case split_on CHR ''-'' s of
        [ys, ms, ds] \<Rightarrow>
          (if is_decimal ys \<and> is_decimal ms \<and> is_decimal ds
           then (let y = digits_value ys; m = digits_value ms; d = digits_value ds
                 in if 1678 \<le> y \<and> y \<le> 2261 \<and> 1 \<le> m \<and> m \<le> 12
                       \<and> 1 \<le> d \<and> d \<le> days_in_month y m
                    then Inr (y, m, d) else Inl ValueError)
           else Inl ValueError)
      | _ \<Rightarrow> Inl ValueError)"

text \<open>\<^verbatim>\<open>pd.to_datetime\<close> on a column: it raises as soon as one cell does not parse.\<close>

fun to_datetime :: "string list \<Rightarrow> error + date list" where
  "to_datetime [] = Inr []"
| "to_datetime (s # ss) =
     (case parse_date s of
        Inl e \<Rightarrow> Inl e
      | Inr d \<Rightarrow> (case to_datetime ss of Inl e \<Rightarrow> Inl e | Inr ds \<Rightarrow> Inr (d # ds)))"

definition mk_row :: "nat \<Rightarrow> date \<Rightarrow> nat option \<Rightarrow> cells \<Rightarrow> row" where
  "mk_row i d n c =
     \<lparr> tahun = tahun c, bulan = bulan c, jumlah_sampah = jumlah_sampah c,
       penanganan_estimasi = penanganan_estimasi c, sisa_sampah = sisa_sampah c,
       akumulasi = akumulasi c, skn_BAU = skn_BAU c, skn_70 = skn_70 c, skn_80 = skn_80 c,
       idx = i, tanggal = d, bulan_num = n \<rparr>"

text \<open>The frame in file order: row \<open>i\<close> has the label \<open>i\<close>.\<close>

definition frame :: "date list \<Rightarrow> nat option list \<Rightarrow> cells list \<Rightarrow> dataframe" where
  "frame ds nums cs = map (\<lambda>i. mk_row i (ds ! i) (nums ! i) (cs ! i)) [0..<length cs]"

text \<open>
  \<^verbatim>\<open>df.sort_values("tanggal")\<close>: ascending by \<^verbatim>\<open>tanggal\<close>. The model sorts stably; pandas'
  default algorithm does not promise an order among rows of equal \<^verbatim>\<open>tanggal\<close>.
\<close>

definition sort_values :: "dataframe \<Rightarrow> dataframe" where
  "sort_values df = sort_key tanggal df"

definition tanggal_strings :: "cells list \<Rightarrow> nat option list \<Rightarrow> string list" where
  "tanggal_strings cs nums =
     map (\<lambda>(c, n). show_int (tahun c) @ ''-'' @ n @ ''-01'') (zip cs (astype_str nums))"

definition load_data :: "csv \<Rightarrow> error + dataframe" where
  "load_data file =
     (case file of
        WithTanggal rs \<Rightarrow>
          (case to_datetime (map fst rs) of
             Inl e \<Rightarrow> Inl e
           | Inr ds \<Rightarrow> Inr (sort_values (frame ds (map (\<lambda>r. None) rs) (map snd rs))))
      | WithoutTanggal cs \<Rightarrow>
          (let nums = map (\<lambda>c. bulan_map (upper (bulan c))) cs
           in case to_datetime (tanggal_strings cs nums) of
                Inl e \<Rightarrow> Inl e
              | Inr ds \<Rightarrow> Inr (sort_values (frame ds nums cs))))"

text \<open>
  The strings the loader hands to \<^verbatim>\<open>pd.to_datetime\<close>: the \<^verbatim>\<open>tanggal\<close> column when the file
  has one, the strings built from year and month number otherwise. They are the periods
  of the file's rows, in file order.
\<close>

definition date_strings :: "csv \<Rightarrow> string list" where
  "date_strings file =
     (case file of
        WithTanggal rs \<Rightarrow> map fst rs
      | WithoutTanggal cs \<Rightarrow> tanggal_strings cs (map (\<lambda>c. bulan_map (upper (bulan c))) cs))"

section \<open>The route \<^verbatim>\<open>index\<close>: year filter and page context\<close>

text \<open>
  A query parameter is \<open>None\<close> when the request does not carry it. The test
  \<^verbatim>\<open>year_from and year_from.isdigit()\<close> holds for a present, non-empty string that passes
  \<^verbatim>\<open>isdigit\<close>.
\<close>

definition bound_given :: "string option \<Rightarrow> bool" where
  "bound_given p = (case p of None \<Rightarrow> False | Some s \<Rightarrow> s \<noteq> [] \<and> isdigit s)"

text \<open>Lines 140 to 144: the two masks, each under its test.\<close>

definition apply_bounds :: "dataframe \<Rightarrow> string option \<Rightarrow> string option \<Rightarrow> error + dataframe" where
  "apply_bounds df year_from year_to =
     (case (if bound_given year_from
            then (case py_int (the year_from) of
                    Inl e \<Rightarrow> Inl e
                  | Inr lo \<Rightarrow> Inr (filter (\<lambda>r. lo \<le> tahun r) df))
            else Inr df) of
        Inl e \<Rightarrow> Inl e
      | Inr df_view \<Rightarrow>
          (if bound_given year_to
           then (case py_int (the year_to) of
                   Inl e \<Rightarrow> Inl e
                 | Inr hi \<Rightarrow> Inr (filter (\<lambda>r. tahun r \<le> hi) df_view))
           else Inr df_view))"

text \<open>
  Lines 140 to 149: the masks, then the fallback to the whole frame with both parameters
  reset to the empty string. The result is the view with the two parameters as they stand
  after line 149.
\<close>

definition range_filter ::
  "dataframe \<Rightarrow> string option \<Rightarrow> string option
     \<Rightarrow> error + (dataframe \<times> string option \<times> string option)" where
  "range_filter df year_from year_to =
     (case apply_bounds df year_from year_to of
        Inl e \<Rightarrow> Inl e
      | Inr df_view \<Rightarrow>
          (if df_view = [] then Inr (df, Some [], Some [])
           else Inr (df_view, year_from, year_to)))"

text \<open>\<^verbatim>\<open>year_from or ""\<close>: what the page shows in the bound's field.\<close>

definition or_empty :: "string option \<Rightarrow> string" where
  "or_empty p = (case p of None \<Rightarrow> [] | Some s \<Rightarrow> s)"

text \<open>\<^verbatim>\<open>df.tail(n)\<close>: the last \<open>n\<close> rows.\<close>

definition tail :: "nat \<Rightarrow> dataframe \<Rightarrow> dataframe" where
  "tail n df = drop (length df - n) df"

text \<open>
  The context handed to the template. The table and the charts are kept as data; their
  HTML is produced by pandas and Plotly.
\<close>

record page_context =
  ctx_table :: dataframe
  ctx_tren :: figure
  ctx_akumulasi :: figure
  ctx_skenario :: figure
  ctx_summary :: summary
  ctx_insights :: "string list"
  ctx_years :: "int list"
  ctx_year_from :: string
  ctx_year_to :: string

definition index :: "csv \<Rightarrow> string option \<Rightarrow> string option \<Rightarrow> error + page_context" where
  "index file year_from year_to =
     (case load_data file of Inl e \<Rightarrow> Inl e | Inr df \<Rightarrow>
      (let years = sort (remdups (map tahun df))
       in case range_filter df year_from year_to of Inl e \<Rightarrow> Inl e
          | Inr (df_view, yf, yt) \<Rightarrow>
           (case build_summary df_view of Inl e \<Rightarrow> Inl e | Inr summ \<Rightarrow>
            (case build_insights df_view of Inl e \<Rightarrow> Inl e | Inr ins \<Rightarrow>
             (case generate_charts df_view of (tren, akum, sken) \<Rightarrow>
                Inr \<lparr> ctx_table = tail 24 df_view, ctx_tren = tren, ctx_akumulasi = akum,
                      ctx_skenario = sken, ctx_summary = summ, ctx_insights = ins,
                      ctx_years = years, ctx_year_from = or_empty yf,
                      ctx_year_to = or_empty yt \<rparr>)))))"

section \<open>A worked scenario\<close>

text \<open>
  Three rows for 2020, 2021 and 2022 with 100, 150 and 90 tons generated. The file lists
  them out of order and spells the month in three ways; the last row ends the scenarios
  at 500 (business as usual) and 350 (80 percent).
\<close>

definition demo_cells :: "int \<Rightarrow> string \<Rightarrow> real \<Rightarrow> real \<Rightarrow> real \<Rightarrow> cells" where
  "demo_cells y m amount bau s80 =
     \<lparr> tahun = y, bulan = m, jumlah_sampah = amount, penanganan_estimasi = amount - 40,
       sisa_sampah = 40, akumulasi = bau, skn_BAU = bau, skn_70 = bau - 10, skn_80 = s80 \<rparr>"

definition demo_file :: csv where
  "demo_file = WithoutTanggal
     [demo_cells 2021 ''Januari'' 150 300 250,
      demo_cells 2020 ''JANUARI'' 100 100 90,
      demo_cells 2022 ''januari'' 90 500 350]"

definition demo_df :: dataframe where
  "demo_df =
     [mk_row 1 (2020, 1, 1) (Some 1) (demo_cells 2020 ''JANUARI'' 100 100 90),
      mk_row 0 (2021, 1, 1) (Some 1) (demo_cells 2021 ''Januari'' 150 300 250),
      mk_row 2 (2022, 1, 1) (Some 1) (demo_cells 2022 ''januari'' 90 500 350)]"

text \<open>The character U+00B2, superscript two.\<close>

definition superscript_two :: char where
  "superscript_two = char_of (178 :: nat)"

section \<open>Facts about the primitives\<close>

lemmas demo_defs = demo_df_def demo_cells_def mk_row_def

lemmas shown_defs = show_int_def show_nat.simps digit_char_def fmt_comma0_def
  round_half_even_def commas_def

lemmas str_defs = title_def upper_def is_lower_def is_upper_def to_lower_def to_upper_def
  lowers_def uppers_def

lemmas digit_defs = bound_given_def isdigit_def isdigit_char_def isdecimal_char_def
  py_int_def digits_value_def

lemma iloc_last_nonempty: "xs \<noteq> [] \<Longrightarrow> iloc_last (map f xs) = Inr (f (last xs))"
  by (cases xs) (simp_all add: iloc_last_def last_map)




lemma split_sorted_le:
  assumes "sorted (map f (pre @ m # post))" and "x \<in> set (m # post)"
  shows "f m \<le> f x"
  using assms by (auto simp: sorted_append)

lemma demo_df_nonempty: "demo_df \<noteq> []"
  by (simp add: demo_df_def)

lemma demo_df_labels: "distinct (map idx demo_df)"
  by (simp add: demo_defs)

lemma demo_df_sorted: "sorted (map tanggal demo_df)"
  by (simp add: demo_defs)

section \<open>The summary\<close>



text \<open>
  C9. \<open>build_summary\<close> fails exactly on the empty view: there it raises (the IndexError of
  \<^verbatim>\<open>iloc[-1]\<close>; the function has no test of its own for emptiness), and on every non-empty
  view it returns a summary.
\<close>

theorem build_summary_fails_iff_empty:
  "(df = [] \<longrightarrow> build_summary df = Inl IndexError)
   \<and> (df \<noteq> [] \<longrightarrow> (\<exists>s. build_summary df = Inr s))"
  by (simp add: build_summary_def Let_def iloc_last_nonempty) (simp add: iloc_last_def)

theorem build_summary_fails_iff_empty_witness:
  "build_summary [] = Inl IndexError \<and> demo_df \<noteq> [] \<and> (\<exists>s. build_summary demo_df = Inr s)"
  using build_summary_fails_iff_empty [of "[]"] build_summary_fails_iff_empty [of demo_df]
    demo_df_nonempty by simp

section \<open>The year filter\<close>

text \<open>
  C1. When the masks leave no row, \<open>range_filter\<close> does not raise: it returns the whole
  frame as the view, and both parameters are reset so that the page shows empty bounds.
\<close>

theorem range_filter_empty_fallback:
  assumes "apply_bounds df year_from year_to = Inr []"
  shows "\<exists>yf yt. range_filter df year_from year_to = Inr (df, yf, yt)
           \<and> or_empty yf = [] \<and> or_empty yt = []"
  using assms by (simp add: range_filter_def or_empty_def)

lemma demo_2025: "apply_bounds demo_df (Some ''2025'') (Some ''2025'') = Inr []"
  by (simp add: apply_bounds_def digit_defs demo_defs)

text \<open>The scenario of the specification: the bounds 2025 to 2025 on the years 2020 to 2022.\<close>

theorem range_filter_empty_fallback_witness:
  "apply_bounds demo_df (Some ''2025'') (Some ''2025'') = Inr []
   \<and> (\<exists>yf yt. range_filter demo_df (Some ''2025'') (Some ''2025'') = Inr (demo_df, yf, yt)
           \<and> or_empty yf = [] \<and> or_empty yt = [])"
  using range_filter_empty_fallback [OF demo_2025] demo_2025 by simp

text \<open>
  A bound that is absent, empty or fails \<^verbatim>\<open>isdigit\<close> is not applied, and a bound of decimal
  digits is applied with its value: the masks keep exactly the rows between the applied
  bounds.
\<close>

lemma bound_not_given:
  "bound_given None = False" "bound_given (Some []) = False"
  "\<not> isdigit s \<Longrightarrow> bound_given (Some s) = False"
  by (simp_all add: bound_given_def)

lemma apply_bounds_decimal:
  assumes "bound_given year_from \<longrightarrow> is_decimal (the year_from)"
    and "bound_given year_to \<longrightarrow> is_decimal (the year_to)"
  shows "apply_bounds df year_from year_to =
     Inr (filter (\<lambda>r. (bound_given year_from \<longrightarrow> int (digits_value (the year_from)) \<le> tahun r)
                    \<and> (bound_given year_to \<longrightarrow> tahun r \<le> int (digits_value (the year_to)))) df)"
  using assms by (auto simp: apply_bounds_def py_int_def is_decimal_def intro: filter_cong)

text \<open>
  C5. A bound string that is not a number must count as no bound. The string made of the
  one character U+00B2 (superscript two) is not a number: \<^verbatim>\<open>int\<close> rejects it. It passes
  \<^verbatim>\<open>isdigit\<close> all the same, so the route calls \<^verbatim>\<open>int\<close> on it and the request ends in a
  ValueError, for the lower bound as for the upper one.
\<close>

theorem range_filter_superscript_raises:
  "isdigit [superscript_two] \<and> py_int [superscript_two] = Inl ValueError
   \<and> apply_bounds demo_df (Some [superscript_two]) None = Inl ValueError
   \<and> range_filter demo_df (Some [superscript_two]) None = Inl ValueError
   \<and> range_filter demo_df None (Some [superscript_two]) = Inl ValueError"
  by (simp add: range_filter_def apply_bounds_def digit_defs superscript_two_def)

section \<open>The insights\<close>

text \<open>
  The scan for the maximum splits the rows at the row it returns: every row before it is
  strictly smaller, every row after it is at most as large.
\<close>

lemma first_max_shape:
  "(first_best (\<lambda>a b. b < a) col best rs = best \<and> (\<forall>r \<in> set rs. col r \<le> col best))
   \<or> (\<exists>pre post. rs = pre @ first_best (\<lambda>a b. b < a) col best rs # post
         \<and> col best < col (first_best (\<lambda>a b. b < a) col best rs)
         \<and> (\<forall>r \<in> set pre. col r < col (first_best (\<lambda>a b. b < a) col best rs))
         \<and> (\<forall>r \<in> set post. col r \<le> col (first_best (\<lambda>a b. b < a) col best rs)))"
proof (induction rs arbitrary: best)
  case Nil
  show ?case by simp
next
  case (Cons r rs)
  let ?m = "first_best (\<lambda>a b. b < a) col best (r # rs)"
  show ?case
  proof (cases "col best < col r")
    case True
    then have m: "?m = first_best (\<lambda>a b. b < a) col r rs" by simp
    from Cons.IH [of r] show ?thesis
    proof
      assume "first_best (\<lambda>a b. b < a) col r rs = r \<and> (\<forall>x \<in> set rs. col x \<le> col r)"
      then have "r # rs = [] @ ?m # rs \<and> col best < col ?m
          \<and> (\<forall>x \<in> set []. col x < col ?m) \<and> (\<forall>x \<in> set rs. col x \<le> col ?m)"
        using True m by simp
      then show ?thesis by blast
    next
      assume "\<exists>pre post. rs = pre @ first_best (\<lambda>a b. b < a) col r rs # post
         \<and> col r < col (first_best (\<lambda>a b. b < a) col r rs)
         \<and> (\<forall>x \<in> set pre. col x < col (first_best (\<lambda>a b. b < a) col r rs))
         \<and> (\<forall>x \<in> set post. col x \<le> col (first_best (\<lambda>a b. b < a) col r rs))"
      then obtain pre post where p: "rs = pre @ ?m # post" "col r < col ?m"
         "\<forall>x \<in> set pre. col x < col ?m" "\<forall>x \<in> set post. col x \<le> col ?m"
        using m by auto
      then have "r # rs = (r # pre) @ ?m # post \<and> col best < col ?m
          \<and> (\<forall>x \<in> set (r # pre). col x < col ?m) \<and> (\<forall>x \<in> set post. col x \<le> col ?m)"
        using True by auto
      then show ?thesis by blast
    qed
  next
    case False
    then have m: "?m = first_best (\<lambda>a b. b < a) col best rs" by simp
    from Cons.IH [of best] show ?thesis
    proof
      assume "first_best (\<lambda>a b. b < a) col best rs = best \<and> (\<forall>x \<in> set rs. col x \<le> col best)"
      then show ?thesis using False m by auto
    next
      assume "\<exists>pre post. rs = pre @ first_best (\<lambda>a b. b < a) col best rs # post
         \<and> col best < col (first_best (\<lambda>a b. b < a) col best rs)
         \<and> (\<forall>x \<in> set pre. col x < col (first_best (\<lambda>a b. b < a) col best rs))
         \<and> (\<forall>x \<in> set post. col x \<le> col (first_best (\<lambda>a b. b < a) col best rs))"
      then obtain pre post where p: "rs = pre @ ?m # post" "col best < col ?m"
         "\<forall>x \<in> set pre. col x < col ?m" "\<forall>x \<in> set post. col x \<le> col ?m"
        using m by auto
      then have "r # rs = (r # pre) @ ?m # post \<and> col best < col ?m
          \<and> (\<forall>x \<in> set (r # pre). col x < col ?m) \<and> (\<forall>x \<in> set post. col x \<le> col ?m)"
        using False by auto
      then show ?thesis by blast
    qed
  qed
qed

lemma first_max_split:
  "\<exists>pre post. best # rs = pre @ first_best (\<lambda>a b. b < a) col best rs # post
      \<and> (\<forall>r \<in> set pre. col r < col (first_best (\<lambda>a b. b < a) col best rs))
      \<and> (\<forall>r \<in> set post. col r \<le> col (first_best (\<lambda>a b. b < a) col best rs))"
proof -
  let ?m = "first_best (\<lambda>a b. b < a) col best rs"
  from first_max_shape [of col best rs] show ?thesis
  proof
    assume "?m = best \<and> (\<forall>r \<in> set rs. col r \<le> col best)"
    then have "best # rs = [] @ ?m # rs \<and> (\<forall>r \<in> set []. col r < col ?m)
        \<and> (\<forall>r \<in> set rs. col r \<le> col ?m)" by simp
    then show ?thesis by blast
  next
    assume "\<exists>pre post. rs = pre @ ?m # post \<and> col best < col ?m
         \<and> (\<forall>r \<in> set pre. col r < col ?m) \<and> (\<forall>r \<in> set post. col r \<le> col ?m)"
    then obtain pre post where "rs = pre @ ?m # post" "col best < col ?m"
         "\<forall>r \<in> set pre. col r < col ?m" "\<forall>r \<in> set post. col r \<le> col ?m" by blast
    then have "best # rs = (best # pre) @ ?m # post
        \<and> (\<forall>r \<in> set (best # pre). col r < col ?m) \<and> (\<forall>r \<in> set post. col r \<le> col ?m)"
      by simp
    then show ?thesis by blast
  qed
qed

text \<open>The scan for the minimum is the scan for the maximum of the negated column.\<close>

lemma first_min_as_max:
  "first_best (\<lambda>a b. a < b) col best rs = first_best (\<lambda>a b. b < a) (\<lambda>r. - col r) best rs"
  by (induction rs arbitrary: best) simp_all

lemma first_min_split:
  "\<exists>pre post. best # rs = pre @ first_best (\<lambda>a b. a < b) col best rs # post
      \<and> (\<forall>r \<in> set pre. col (first_best (\<lambda>a b. a < b) col best rs) < col r)
      \<and> (\<forall>r \<in> set post. col (first_best (\<lambda>a b. a < b) col best rs) \<le> col r)"
  using first_max_split [of best rs "\<lambda>r. - col r"] by (simp add: first_min_as_max)

lemma first_max_mem: "first_best (\<lambda>a b. b < a) col r rs \<in> set (r # rs)"
  using first_max_split [of r rs col] by (metis in_set_conv_decomp)

lemma first_min_mem: "first_best (\<lambda>a b. a < b) col r rs \<in> set (r # rs)"
  using first_min_split [of r rs col] by (metis in_set_conv_decomp)

text \<open>With labels that are pairwise different, \<open>loc\<close> finds the row that carries the label.\<close>

lemma filter_idx_unique:
  "distinct (map idx df) \<Longrightarrow> m \<in> set df \<Longrightarrow> filter (\<lambda>r. idx r = idx m) df = [m]"
proof (induction df)
  case Nil
  then show ?case by simp
next
  case (Cons a df)
  from Cons.prems have notin: "idx a \<notin> idx ` set df" and dist: "distinct (map idx df)"
    by simp_all
  show ?case
  proof (cases "a = m")
    case True
    have "filter (\<lambda>r. idx r = idx m) df = []"
      unfolding filter_empty_conv using notin True by (auto simp: image_iff)
    then show ?thesis using True by simp
  next
    case False
    then have mem: "m \<in> set df" using Cons.prems by simp
    then have "idx a \<noteq> idx m" using notin by (auto simp: image_iff)
    then show ?thesis using Cons.IH [OF dist mem] by simp
  qed
qed

lemma loc_unique:
  "distinct (map idx df) \<Longrightarrow> m \<in> set df \<Longrightarrow> loc df (idx m) = Inr m"
  by (simp add: loc_def filter_idx_unique)

lemma highest_Cons:
  "distinct (map idx (r # rs)) \<Longrightarrow>
     highest (r # rs) = Inr (first_best (\<lambda>a b. b < a) jumlah_sampah r rs)"
  using loc_unique [OF _ first_max_mem, of r rs jumlah_sampah]
  by (simp add: highest_def idxmax_def)

lemma lowest_Cons:
  "distinct (map idx (r # rs)) \<Longrightarrow>
     lowest (r # rs) = Inr (first_best (\<lambda>a b. a < b) jumlah_sampah r rs)"
  using loc_unique [OF _ first_min_mem, of r rs jumlah_sampah]
  by (simp add: lowest_def idxmin_def)

lemma build_insights_Cons:
  assumes "distinct (map idx (r # rs))"
  shows "build_insights (r # rs) =
     Inr [peak_sentence (first_best (\<lambda>a b. b < a) jumlah_sampah r rs),
          lowest_sentence (first_best (\<lambda>a b. a < b) jumlah_sampah r rs),
          delta_sentence (skn_BAU (last (r # rs)) - skn_80 (last (r # rs)))]"
proof -
  have l1: "iloc_last (map skn_80 (r # rs)) = Inr (skn_80 (last (r # rs)))"
    by (rule iloc_last_nonempty) simp
  have l2: "iloc_last (map skn_BAU (r # rs)) = Inr (skn_BAU (last (r # rs)))"
    by (rule iloc_last_nonempty) simp
  show ?thesis
    unfolding build_insights_def highest_Cons [OF assms] lowest_Cons [OF assms] l1 l2
    by (simp add: Let_def)
qed

lemma demo_highest:
  "highest demo_df = Inr (mk_row 0 (2021, 1, 1) (Some 1) (demo_cells 2021 ''Januari'' 150 300 250))"
  by (simp add: highest_def idxmax_def loc_def demo_defs)

lemma demo_lowest:
  "lowest demo_df = Inr (mk_row 2 (2022, 1, 1) (Some 1) (demo_cells 2022 ''januari'' 90 500 350))"
  by (simp add: lowest_def idxmin_def loc_def demo_defs)

text \<open>
  C4. On a non-empty view (whose labels are pairwise different, as the loader and the
  filter leave them) the row of the first sentence has no row above it in
  \<^verbatim>\<open>jumlah_sampah\<close>, the row of the second sentence has no row below it, and each is the
  first such row of the view: every row before it is strictly smaller (strictly larger).
  In a view sorted by \<^verbatim>\<open>tanggal\<close> this is the chronologically first one among the rows
  that tie.
\<close>

theorem insight_selection:
  assumes "df \<noteq> []" and "distinct (map idx df)"
  shows "\<exists>hi lo. highest df = Inr hi \<and> lowest df = Inr lo
     \<and> (\<exists>s3. build_insights df = Inr [peak_sentence hi, lowest_sentence lo, s3])
     \<and> (\<forall>r \<in> set df. jumlah_sampah r \<le> jumlah_sampah hi)
     \<and> (\<forall>r \<in> set df. jumlah_sampah lo \<le> jumlah_sampah r)
     \<and> (\<exists>i < length df. df ! i = hi \<and> (\<forall>j < i. jumlah_sampah (df ! j) < jumlah_sampah hi))
     \<and> (\<exists>i < length df. df ! i = lo \<and> (\<forall>j < i. jumlah_sampah lo < jumlah_sampah (df ! j)))
     \<and> (sorted (map tanggal df) \<longrightarrow>
          (\<forall>r \<in> set df. jumlah_sampah r = jumlah_sampah hi \<longrightarrow> tanggal hi \<le> tanggal r)
        \<and> (\<forall>r \<in> set df. jumlah_sampah r = jumlah_sampah lo \<longrightarrow> tanggal lo \<le> tanggal r))"
proof -
  from assms(1) obtain r0 rs where df: "df = r0 # rs" by (cases df) auto
  define hi where "hi = first_best (\<lambda>a b. b < a) jumlah_sampah r0 rs"
  define lo where "lo = first_best (\<lambda>a b. a < b) jumlah_sampah r0 rs"
  from first_max_split [of r0 rs jumlah_sampah] obtain pre post where
    hs: "df = pre @ hi # post" "\<forall>r \<in> set pre. jumlah_sampah r < jumlah_sampah hi"
        "\<forall>r \<in> set post. jumlah_sampah r \<le> jumlah_sampah hi"
    unfolding df hi_def by blast
  from first_min_split [of r0 rs jumlah_sampah] obtain pre' post' where
    ls: "df = pre' @ lo # post'" "\<forall>r \<in> set pre'. jumlah_sampah lo < jumlah_sampah r"
        "\<forall>r \<in> set post'. jumlah_sampah lo \<le> jumlah_sampah r"
    unfolding df lo_def by blast
  have d: "distinct (map idx (r0 # rs))" using assms(2) df by simp
  have h: "highest df = Inr hi" unfolding df hi_def by (rule highest_Cons [OF d])
  have l: "lowest df = Inr lo" unfolding df lo_def by (rule lowest_Cons [OF d])
  have b: "\<exists>s3. build_insights df = Inr [peak_sentence hi, lowest_sentence lo, s3]"
    unfolding df hi_def lo_def using build_insights_Cons [OF d] by blast
  have mx: "\<forall>r \<in> set df. jumlah_sampah r \<le> jumlah_sampah hi"
    using hs by (subst hs(1)) (auto simp: less_imp_le)
  have mn: "\<forall>r \<in> set df. jumlah_sampah lo \<le> jumlah_sampah r"
    using ls by (subst ls(1)) (auto simp: less_imp_le)
  have ph: "\<exists>i < length df. df ! i = hi \<and> (\<forall>j < i. jumlah_sampah (df ! j) < jumlah_sampah hi)"
  proof -
    have "length pre < length df" by (subst hs(1)) simp
    moreover have "df ! length pre = hi" by (subst hs(1)) simp
    moreover have "\<forall>j < length pre. jumlah_sampah (df ! j) < jumlah_sampah hi"
      using hs(2) by (subst hs(1)) (simp add: nth_append)
    ultimately show ?thesis by blast
  qed
  have pl: "\<exists>i < length df. df ! i = lo \<and> (\<forall>j < i. jumlah_sampah lo < jumlah_sampah (df ! j))"
  proof -
    have "length pre' < length df" by (subst ls(1)) simp
    moreover have "df ! length pre' = lo" by (subst ls(1)) simp
    moreover have "\<forall>j < length pre'. jumlah_sampah lo < jumlah_sampah (df ! j)"
      using ls(2) by (subst ls(1)) (simp add: nth_append)
    ultimately show ?thesis by blast
  qed
  have ch: "\<forall>r \<in> set df. jumlah_sampah r = jumlah_sampah hi \<longrightarrow> tanggal hi \<le> tanggal r"
    if s: "sorted (map tanggal df)"
  proof (intro ballI impI)
    fix r assume r: "r \<in> set df" and e: "jumlah_sampah r = jumlah_sampah hi"
    from r hs(1) have "r \<in> set pre \<or> r \<in> set (hi # post)" by auto
    with hs(2) e have "r \<in> set (hi # post)" by auto
    with s hs(1) show "tanggal hi \<le> tanggal r" using split_sorted_le by metis
  qed
  have cl: "\<forall>r \<in> set df. jumlah_sampah r = jumlah_sampah lo \<longrightarrow> tanggal lo \<le> tanggal r"
    if s: "sorted (map tanggal df)"
  proof (intro ballI impI)
    fix r assume r: "r \<in> set df" and e: "jumlah_sampah r = jumlah_sampah lo"
    from r ls(1) have "r \<in> set pre' \<or> r \<in> set (lo # post')" by auto
    with ls(2) e have "r \<in> set (lo # post')" by auto
    with s ls(1) show "tanggal lo \<le> tanggal r" using split_sorted_le by metis
  qed
  from h l b mx mn ph pl ch cl show ?thesis by blast
qed

text \<open>In the scenario the peak is the row of 2021 and the lowest row is that of 2022.\<close>

theorem insight_selection_witness:
  "demo_df \<noteq> [] \<and> distinct (map idx demo_df) \<and> sorted (map tanggal demo_df)
   \<and> (\<exists>hi lo. highest demo_df = Inr hi \<and> lowest demo_df = Inr lo
         \<and> tahun hi = 2021 \<and> tahun lo = 2022
         \<and> (\<forall>r \<in> set demo_df. jumlah_sampah r \<le> jumlah_sampah hi)
         \<and> (\<forall>r \<in> set demo_df. jumlah_sampah lo \<le> jumlah_sampah r)
         \<and> (\<forall>r \<in> set demo_df. jumlah_sampah r = jumlah_sampah hi \<longrightarrow> tanggal hi \<le> tanggal r)
         \<and> (\<forall>r \<in> set demo_df. jumlah_sampah r = jumlah_sampah lo \<longrightarrow> tanggal lo \<le> tanggal r))"
proof -
  from insight_selection [OF demo_df_nonempty demo_df_labels] demo_df_sorted
  obtain hi lo where sel: "highest demo_df = Inr hi" "lowest demo_df = Inr lo"
    "\<forall>r \<in> set demo_df. jumlah_sampah r \<le> jumlah_sampah hi"
    "\<forall>r \<in> set demo_df. jumlah_sampah lo \<le> jumlah_sampah r"
    "\<forall>r \<in> set demo_df. jumlah_sampah r = jumlah_sampah hi \<longrightarrow> tanggal hi \<le> tanggal r"
    "\<forall>r \<in> set demo_df. jumlah_sampah r = jumlah_sampah lo \<longrightarrow> tanggal lo \<le> tanggal r"
    by blast
  have "tahun hi = 2021"
    using sel(1) unfolding demo_highest by (auto simp: demo_cells_def mk_row_def)
  moreover have "tahun lo = 2022"
    using sel(2) unfolding demo_lowest by (auto simp: demo_cells_def mk_row_def)
  ultimately show ?thesis
    using sel demo_df_nonempty demo_df_labels demo_df_sorted by blast
qed




text \<open>
  C10. On a non-empty view (labels pairwise different) \<open>build_insights\<close> returns a list of
  exactly three sentences, whatever the rows hold.
\<close>

theorem build_insights_three:
  assumes "df \<noteq> []" and "distinct (map idx df)"
  shows "\<exists>s1 s2 s3. build_insights df = Inr [s1, s2, s3]"
proof -
  from assms(1) obtain r rs where df: "df = r # rs" by (cases df) auto
  show ?thesis using build_insights_Cons [of r rs] assms(2) unfolding df by blast
qed

theorem build_insights_three_witness:
  "demo_df \<noteq> [] \<and> distinct (map idx demo_df)
   \<and> (\<exists>s1 s2 s3. build_insights demo_df = Inr [s1, s2, s3])"
  using build_insights_three [OF demo_df_nonempty demo_df_labels]
    demo_df_nonempty demo_df_labels by blast

text \<open>The three sentences of the scenario, as the page shows them.\<close>

lemma demo_insights:
  "build_insights demo_df =
     Inr [''Puncak timbulan terjadi pada Januari 2021 sebesar 150 ton.'',
          ''Periode terendah adalah Januari 2022 dengan 90 ton.'',
          ''Skenario 80% menurunkan akumulasi akhir sebesar 150 ton dibanding BAU.'']"
  unfolding build_insights_def demo_highest demo_lowest
  by (simp add: iloc_last_def Let_def peak_sentence_def lowest_sentence_def delta_sentence_def
        demo_defs shown_defs str_defs)

section \<open>The charts\<close>

text \<open>
  C7. The trend figure, the accumulation figure and the three traces of the scenario
  figure all take \<^verbatim>\<open>tanggal\<close> of the view, row by row and in the view's order, as their x
  axis, and one column of the view, row by row, as their y values: every series is as long
  as the view and nothing is aggregated. \<open>generate_charts\<close> is total; on the empty view
  every series is empty.
\<close>

theorem generate_charts_projection:
  "(case generate_charts df of (tren, akum, sken) \<Rightarrow>
      map trace_x (fig_data tren) = [map tanggal df]
    \<and> map trace_y (fig_data tren) = [map jumlah_sampah df]
    \<and> map trace_x (fig_data akum) = [map tanggal df]
    \<and> map trace_y (fig_data akum) = [map akumulasi df]
    \<and> map trace_x (fig_data sken) = [map tanggal df, map tanggal df, map tanggal df]
    \<and> map trace_y (fig_data sken) = [map skn_BAU df, map skn_70 df, map skn_80 df]
    \<and> list_all (\<lambda>t. length (trace_x t) = length df \<and> length (trace_y t) = length df)
         (fig_data tren @ fig_data akum @ fig_data sken))
   \<and> (case generate_charts [] of (tren, akum, sken) \<Rightarrow>
         list_all (\<lambda>t. trace_x t = [] \<and> trace_y t = [])
           (fig_data tren @ fig_data akum @ fig_data sken))"
  by (simp add: generate_charts_def px_line_def scatter_def Let_def)

section \<open>The loader\<close>

lemma parse_date_error: "parse_date s = Inl e \<Longrightarrow> e = ValueError"
  by (auto simp: parse_date_def Let_def split: list.splits if_splits)

lemma to_datetime_error: "to_datetime ss = Inl e \<Longrightarrow> e = ValueError"
  by (induction ss arbitrary: e) (auto split: sum.splits dest: parse_date_error)

lemma to_datetime_Inr:
  "to_datetime ss = Inr ds \<Longrightarrow>
     length ds = length ss \<and> (\<forall>i < length ss. parse_date (ss ! i) = Inr (ds ! i))"
proof (induction ss arbitrary: ds)
  case Nil
  then show ?case by simp
next
  case (Cons s ss)
  then obtain d ds' where p: "parse_date s = Inr d" "to_datetime ss = Inr ds'" "ds = d # ds'"
    by (auto split: sum.splits)
  from Cons.IH [OF p(2)] p show ?case by (auto simp: nth_Cons split: nat.splits)
qed


lemma split_on_nonempty: "split_on c s \<noteq> []"
  by (induction s) (auto split: list.splits)

lemma split_on_append: "split_on c (a @ c # b) = split_on c a @ split_on c b"
proof (induction a)
  case Nil
  show ?case by simp
next
  case (Cons x a)
  obtain p ps where sp: "split_on c a = p # ps"
    using split_on_nonempty [of c a] by (cases "split_on c a") auto
  show ?case using Cons sp by simp
qed

lemma split_on_absent: "c \<notin> set s \<Longrightarrow> split_on c s = [s]"
  by (induction s) auto


lemma astype_str_length: "length (astype_str nums) = length nums"
  by (simp add: astype_str_def Let_def)



lemma tanggal_strings_length:
  "length (tanggal_strings cs (map f cs)) = length cs"
  by (simp add: tanggal_strings_def astype_str_length)



lemma digit_char_decimal:
  assumes "k < 10"
  shows "(of_char (digit_char k) :: nat) = 48 + k"
proof -
  from assms have "k = 0 \<or> k = 1 \<or> k = 2 \<or> k = 3 \<or> k = 4 \<or> k = 5 \<or> k = 6 \<or> k = 7
      \<or> k = 8 \<or> k = 9" by arith
  then show ?thesis by (auto simp: digit_char_def)
qed

lemma show_nat_decimal: "list_all isdecimal_char (show_nat n)"
proof (induction n rule: show_nat.induct)
  case (1 n)
  show ?case
  proof (cases "n < 10")
    case True
    then show ?thesis
      by (subst show_nat.simps) (simp add: isdecimal_char_def digit_char_decimal)
  next
    case False
    then have "n mod 10 < 10" by simp
    then have "isdecimal_char (digit_char (n mod 10))"
      by (simp add: isdecimal_char_def digit_char_decimal)
    then show ?thesis using False 1
      by (subst show_nat.simps) simp
  qed
qed

lemma show_nat_nonempty: "show_nat n \<noteq> []"
  by (subst show_nat.simps) simp

lemma show_nat_is_decimal: "is_decimal (show_nat n)"
  by (simp add: is_decimal_def show_nat_nonempty show_nat_decimal)

lemma digits_value_snoc:
  "digits_value (s @ [c]) = 10 * digits_value s + ((of_char c :: nat) - 48)"
  by (simp add: digits_value_def)

lemma digits_value_show_nat: "digits_value (show_nat n) = n"
proof (induction n rule: show_nat.induct)
  case (1 n)
  show ?case
  proof (cases "n < 10")
    case True
    then show ?thesis
      by (subst show_nat.simps) (simp add: digits_value_def digit_char_decimal)
  next
    case False
    then have "digits_value (show_nat (n div 10)) = n div 10" using 1 by simp
    moreover have "(of_char (digit_char (n mod 10)) :: nat) = 48 + n mod 10"
      by (rule digit_char_decimal) simp
    ultimately show ?thesis using False
      by (subst show_nat.simps) (simp add: digits_value_snoc)
  qed
qed

lemma show_nat_no_dash: "CHR ''-'' \<notin> set (show_nat n)"
proof
  assume "CHR ''-'' \<in> set (show_nat n)"
  then have "isdecimal_char CHR ''-''"
    using show_nat_decimal [of n] by (simp add: list_all_iff)
  then show False by (simp add: isdecimal_char_def)
qed

lemma split_built:
  "split_on CHR ''-'' (show_nat a @ ''-'' @ show_nat m @ ''-01'')
     = [show_nat a, show_nat m, ''01'']"
proof -
  have "split_on CHR ''-'' (show_nat a @ CHR ''-'' # (show_nat m @ CHR ''-'' # ''01''))
      = split_on CHR ''-'' (show_nat a)
        @ split_on CHR ''-'' (show_nat m) @ split_on CHR ''-'' ''01''"
    by (simp only: split_on_append)
  then show ?thesis
    by (simp add: split_on_absent show_nat_no_dash)
qed


lemma parse_built_ok:
  assumes "1678 \<le> y" "y \<le> 2261" "1 \<le> m" "m \<le> 12"
  shows "parse_date (show_int y @ ''-'' @ show_nat m @ ''-01'') = Inr (nat y, m, 1)"
proof -
  from assms have s: "show_int y = show_nat (nat y)" by (simp add: show_int_def)
  have one: "digits_value ''01'' = 1" "is_decimal ''01''"
    by (simp_all add: digits_value_def is_decimal_def isdecimal_char_def)
  have "1 \<le> days_in_month (nat y) m" by (simp add: days_in_month_def)
  moreover have "1678 \<le> nat y" "nat y \<le> 2261" using assms by linarith+
  ultimately show ?thesis
    unfolding parse_date_def s split_built using assms
    by (simp add: show_nat_is_decimal digits_value_show_nat one Let_def)
qed

text \<open>Upper-casing makes the lookup blind to the case of the letters.\<close>

lemma to_upper_to_lower: "to_upper (to_lower c) = to_upper c"
  by (simp add: to_upper_def to_lower_def lowers_def uppers_def)

lemma to_upper_idem: "to_upper (to_upper c) = to_upper c"
  by (simp add: to_upper_def lowers_def uppers_def)

lemma upper_ignores_case: "upper (map to_lower s) = upper s" "upper (upper s) = upper s"
  by (simp_all add: upper_def to_upper_to_lower to_upper_idem)

lemma map_tanggal_insort:
  "map tanggal (insort_key tanggal r rs) = insort (tanggal r) (map tanggal rs)"
  by (induction rs) simp_all

lemma map_tanggal_sort_values: "map tanggal (sort_values df) = sort (map tanggal df)"
  by (induction df) (simp_all add: sort_values_def map_tanggal_insort)


lemma frame_tanggal:
  "length ds = length cs \<Longrightarrow> map tanggal (frame ds nums cs) = ds"
  using map_nth [of ds] by (simp add: frame_def mk_row_def comp_def)

lemma frame_idx: "map idx (frame ds nums cs) = [0..<length cs]"
  by (simp add: frame_def mk_row_def comp_def)

lemma load_data_shape:
  assumes "to_datetime (date_strings file) = Inr ds"
  shows "\<exists>nums cs. length cs = length ds
           \<and> load_data file = Inr (sort_values (frame ds nums cs))"
proof (cases "file")
  case (WithTanggal rs)
  with assms have t: "to_datetime (map fst rs) = Inr ds" by (simp add: date_strings_def)
  from to_datetime_Inr [OF t] have "length (map snd rs) = length ds" by simp
  moreover have "load_data file = Inr (sort_values (frame ds (map (\<lambda>r. None) rs) (map snd rs)))"
    using WithTanggal t by (simp add: load_data_def)
  ultimately show ?thesis by blast
next
  case (WithoutTanggal cs)
  let ?nums = "map (\<lambda>c. bulan_map (upper (bulan c))) cs"
  from assms WithoutTanggal have t: "to_datetime (tanggal_strings cs ?nums) = Inr ds"
    by (simp add: date_strings_def)
  from to_datetime_Inr [OF t] have "length cs = length ds"
    by (simp add: tanggal_strings_length)
  moreover have "load_data file = Inr (sort_values (frame ds ?nums cs))"
    using WithoutTanggal t by (simp add: load_data_def Let_def)
  ultimately show ?thesis by blast
qed

lemma load_data_parses:
  assumes "load_data file = Inr df"
  shows "\<exists>ds. to_datetime (date_strings file) = Inr ds"
  using assms
  by (cases "file") (auto simp: load_data_def date_strings_def Let_def split: sum.splits)

text \<open>
  C3. A valid file is one whose periods all parse and are pairwise different. On a valid
  file the loader returns a frame, the \<^verbatim>\<open>tanggal\<close> column of the frame is the sorted list of
  the file's periods, and it is strictly increasing.
\<close>

theorem load_data_strictly_sorted:
  assumes "to_datetime (date_strings file) = Inr ds" and "distinct ds"
  shows "\<exists>df. load_data file = Inr df \<and> map tanggal df = sort ds
            \<and> sorted_wrt (<) (map tanggal df)"
proof -
  from load_data_shape [OF assms(1)] obtain nums cs where
    l: "length cs = length ds" "load_data file = Inr (sort_values (frame ds nums cs))"
    by blast
  have m: "map tanggal (sort_values (frame ds nums cs)) = sort ds"
    using l(1) by (simp add: map_tanggal_sort_values frame_tanggal)
  have "sorted_wrt (<) (sort ds)"
    using assms(2) by (simp add: strict_sorted_iff)
  with l(2) m show ?thesis by simp
qed

lemma load_data_sorted: "load_data file = Inr df \<Longrightarrow> sorted (map tanggal df)"
proof -
  assume a: "load_data file = Inr df"
  from load_data_parses [OF a] obtain ds where "to_datetime (date_strings file) = Inr ds" ..
  from load_data_shape [OF this] a obtain nums cs where
    "df = sort_values (frame ds nums cs)" by auto
  then show ?thesis by (simp add: sort_values_def)
qed

lemma load_data_labels: "load_data file = Inr df \<Longrightarrow> distinct (map idx df)"
proof -
  assume a: "load_data file = Inr df"
  from load_data_parses [OF a] obtain ds where "to_datetime (date_strings file) = Inr ds" ..
  from load_data_shape [OF this] a obtain nums cs where
    df: "df = sort_values (frame ds nums cs)" by auto
  have "distinct (map idx (frame ds nums cs))" by (simp add: frame_idx)
  then show ?thesis unfolding df sort_values_def
    by (simp add: distinct_map)
qed



lemmas load_defs = load_data_def Let_def tanggal_strings_def astype_str_def
      bulan_map_def str_defs shown_defs parse_date_def is_decimal_def isdecimal_char_def
      digits_value_def days_in_month_def is_leap_def frame_def sort_values_def upt_rec

text \<open>The scenario file: three periods, listed out of order.\<close>

lemma demo_dates:
  "to_datetime (date_strings demo_file) = Inr [(2021, 1, 1), (2020, 1, 1), (2022, 1, 1)]"
  by (simp add: date_strings_def demo_file_def demo_cells_def load_defs)

theorem load_data_strictly_sorted_witness:
  "to_datetime (date_strings demo_file) = Inr [(2021, 1, 1), (2020, 1, 1), (2022, 1, 1)]
   \<and> distinct [(2021, 1, 1), (2020, 1, 1), (2022, 1, 1) :: date]
   \<and> (\<exists>df. load_data demo_file = Inr df
          \<and> map tanggal df = [(2020, 1, 1), (2021, 1, 1), (2022, 1, 1)]
          \<and> sorted_wrt (<) (map tanggal df))"
proof -
  have d: "distinct [(2021, 1, 1), (2020, 1, 1), (2022, 1, 1) :: date]" by simp
  from load_data_strictly_sorted [OF demo_dates d] demo_dates d show ?thesis by simp
qed



text \<open>
  The views the route hands on: the filter keeps a sublist of the loaded frame, so labels
  stay pairwise different and the rows stay sorted by \<^verbatim>\<open>tanggal\<close>.
\<close>

lemma apply_bounds_filter:
  "apply_bounds df year_from year_to = Inr v \<Longrightarrow> \<exists>P. v = filter P df"
  unfolding apply_bounds_def
  by (auto split: if_splits sum.splits intro: exI [of _ "\<lambda>r. True"])

lemma range_filter_view:
  assumes "range_filter df year_from year_to = Inr (v, yf, yt)"
  shows "(distinct (map idx df) \<longrightarrow> distinct (map idx v))
       \<and> (sorted (map tanggal df) \<longrightarrow> sorted (map tanggal v))"
proof -
  from assms obtain w where w: "apply_bounds df year_from year_to = Inr w"
    and v: "v = df \<or> v = w"
    by (auto simp: range_filter_def split: sum.splits if_splits)
  from apply_bounds_filter [OF w] obtain P where "w = filter P df" ..
  with v show ?thesis by (auto simp: distinct_map_filter sorted_filter)
qed

lemma pipeline_view:
  assumes "load_data file = Inr df" and "range_filter df year_from year_to = Inr (v, yf, yt)"
  shows "distinct (map idx v) \<and> sorted (map tanggal v)"
  using range_filter_view [OF assms(2)] load_data_labels [OF assms(1)]
    load_data_sorted [OF assms(1)] by simp

end
